theory Spec2Isabelle
  imports Complex_Main "HOL-Library.Word"
begin

unbundle bit_operations_syntax

section \<open>Thread-local runtime state of \<^verbatim>\<open>thread.inl\<close>\<close>

text \<open>
  The development embeds the inline member functions of \<^verbatim>\<open>ee_alloc_context\<close> and
  \<^verbatim>\<open>Thread\<close> from \<^verbatim>\<open>src/coreclr/nativeaot/Runtime/thread.inl\<close>.

  Pointers are 64-bit words, the null pointer is \<open>0\<close>; pointer comparison is the unsigned
  order on words and pointer arithmetic on \<^verbatim>\<open>uint8_t*\<close> is word arithmetic (which wraps).
  \<^verbatim>\<open>size_t\<close> has the width of a pointer, \<^verbatim>\<open>uint32_t\<close> is a 32-bit word.
\<close>

type_synonym ptr = "64 word"
type_synonym size_t = "64 word"
type_synonym uint32_t = "32 word"

subsection \<open>Allocation context\<close>

text \<open>
  \<^verbatim>\<open>ee_alloc_context\<close> holds the collector's allocation context in
  \<^verbatim>\<open>m_rgbAllocContextBuffer\<close> and the derived \<^verbatim>\<open>combined_limit\<close>. The source reads the
  buffer through \<^verbatim>\<open>_thread_inl_gc_alloc_context\<close>, whose two fields are the only ones it
  touches.
\<close>

record ee_alloc_context =
  alloc_ptr :: ptr
  alloc_limit :: ptr
  combined_limit :: ptr

definition SamplingDistributionMean :: uint32_t where
  "SamplingDistributionMean = 100 * 1024"

definition UINT32_MAX :: uint32_t where
  "UINT32_MAX = 4294967295"

definition GetCombinedLimit :: "ee_alloc_context \<Rightarrow> ptr" where
  "GetCombinedLimit ctx = combined_limit ctx"

text \<open>
  \<^verbatim>\<open>PerThreadRandom::NextDouble\<close>. The generator \<^verbatim>\<open>minipal_xoshiro128pp_next\<close> is an external
  library function; the 32-bit \<open>value\<close> it returns is an input of the model. The product
  \<^verbatim>\<open>value * (1.0/(UINT32_MAX+1.0))\<close> is a multiple of \<open>2^-32\<close> below one and is exact in
  double precision.
\<close>

definition NextDouble :: "uint32_t \<Rightarrow> real" where
  "NextDouble v = real (unat v) * (1 / (real (unat UINT32_MAX) + 1))"

text \<open>
  The conversion \<^verbatim>\<open>(uint32_t)d\<close> of a double discards the fractional part (it truncates
  towards zero). C++ leaves the conversion undefined when the truncated value is not a
  \<^verbatim>\<open>uint32_t\<close>; \<open>ComputeGeometricRandom_in_range\<close> below shows that the source never
  converts such a value.
\<close>

definition double_to_uint32 :: "real \<Rightarrow> uint32_t" where
  "double_to_uint32 d = word_of_int (if d < 0 then \<lceil>d\<rceil> else \<lfloor>d\<rfloor>)"

text \<open>
  \<^verbatim>\<open>ee_alloc_context::ComputeGeometricRandom\<close>. Double arithmetic is idealised as real
  arithmetic: \<^verbatim>\<open>log\<close> is the natural logarithm \<open>ln\<close>, and the subtraction, negation and
  product are exact.
\<close>

definition sampling_threshold :: "uint32_t \<Rightarrow> real" where
  "sampling_threshold v = - ln (1 - NextDouble v) * real (unat SamplingDistributionMean)"

definition ComputeGeometricRandom :: "uint32_t \<Rightarrow> uint32_t" where
  "ComputeGeometricRandom v = double_to_uint32 (sampling_threshold v)"

text \<open>
  \<^verbatim>\<open>ee_alloc_context::UpdateCombinedLimit\<close>. \<open>rnd\<close> is the value the generator returns if
  the sampling branch draws from it. The 32-bit budget is widened to \<^verbatim>\<open>size_t\<close>, the
  pointer difference is taken as a \<^verbatim>\<open>size_t\<close>, and \<^verbatim>\<open>min\<close> is the unsigned minimum.
\<close>

definition UpdateCombinedLimit :: "bool \<Rightarrow> uint32_t \<Rightarrow> ee_alloc_context \<Rightarrow> ee_alloc_context" where
  "UpdateCombinedLimit samplingEnabled rnd ctx =
     (if \<not> samplingEnabled then ctx\<lparr>combined_limit := alloc_limit ctx\<rparr>
      else
        let samplingBudget = (ucast (ComputeGeometricRandom rnd) :: size_t);
            size = alloc_limit ctx - alloc_ptr ctx
        in ctx\<lparr>combined_limit := alloc_ptr ctx + min samplingBudget size\<rparr>)"

subsection \<open>Frames, registrations and the thread object\<close>

text \<open>
  The frame and registration types are declared outside \<^verbatim>\<open>thread.inl\<close>; the records
  have the fields this file reads or writes. Each type lives in a store of its own,
  indexed by address: a store to a field of one frame changes that frame only.
\<close>

record PInvokeTransitionFrame =
  m_RIP :: ptr
  m_pThread :: ptr

record ReversePInvokeFrame =
  m_savedPInvokeTransitionFrame :: ptr

record GCFrameRegistration =
  m_pNext :: ptr

record Thread =
  m_eeAllocContext :: ee_alloc_context
  m_pTransitionFrame :: ptr
  m_pDeferredTransitionFrame :: ptr
  m_pStackLow :: ptr
  m_pStackHigh :: ptr
  m_ThreadStateFlags :: uint32_t
  m_pGCFrameRegistrations :: ptr
  m_pThreadStressLog :: ptr

text \<open>
  The order of the effects of a call is recorded in a trace: the stores to the frames
  and to \<^verbatim>\<open>m_pTransitionFrame\<close>, the reads of the global trap flag and the calls of the
  external wait routine.
\<close>

datatype event =
    Store_m_savedPInvokeTransitionFrame ptr ptr
  | Store_m_pThread ptr ptr
  | Store_m_pTransitionFrame ptr
  | Read_TrapThreadsRequested bool
  | Call_RhpWaitForGC2 ptr

text \<open>
  The state a member function of \<^verbatim>\<open>Thread\<close> runs in: the thread object, its address
  \<open>this\<close>, the three stores and the trace.
\<close>

record world =
  this :: ptr
  thread :: Thread
  pinvoke_frames :: "ptr \<Rightarrow> PInvokeTransitionFrame"
  reverse_frames :: "ptr \<Rightarrow> ReversePInvokeFrame"
  gc_registrations :: "ptr \<Rightarrow> GCFrameRegistration"
  trace :: "event list"

text \<open>
  What the functions use and \<^verbatim>\<open>thread.inl\<close> does not define is a parameter:
  whether the build compiles \<^verbatim>\<open>ASSERT\<close> in, the two \<^verbatim>\<open>ThreadStateFlags\<close> constants,
  \<^verbatim>\<open>Thread::IsGCSpecial\<close>, \<^verbatim>\<open>ThreadStore::GetCurrentThread\<close> and the effect of
  \<^verbatim>\<open>RhpWaitForGC2\<close> on the state.
\<close>

record externals =
  asserts_enabled :: bool
  TSF_Attached :: uint32_t
  TSF_DoNotTriggerGc :: uint32_t
  IsGCSpecial :: "Thread \<Rightarrow> bool"
  GetCurrentThread :: ptr
  RhpWaitForGC2 :: "ptr \<Rightarrow> world \<Rightarrow> world"

datatype fatal = AssertionFailed

text \<open>
  Modelled from the spec: the \<^verbatim>\<open>ASSERT\<close> macro, whose definition is not in
  \<^verbatim>\<open>thread.inl\<close>. The spec has the checks as assertions of a debug build
  ("rejected (fatal) in a debug build", "enforces this only via an assertion, not a hard
  check"): where assertions are compiled in, a false condition ends the process; where
  they are not, the condition is not evaluated.
\<close>

definition ASSERT :: "externals \<Rightarrow> bool \<Rightarrow> fatal + unit" where
  "ASSERT ext c = (if asserts_enabled ext then (if c then Inr () else Inl AssertionFailed) else Inr ())"

definition log_event :: "event \<Rightarrow> world \<Rightarrow> world" where
  "log_event e w = w\<lparr>trace := trace w @ [e]\<rparr>"

text \<open>
  \<^verbatim>\<open>ThreadStore::IsTrapThreadsRequested\<close> reads a global flag that other threads set and
  clear. No function of this file reads it more than once on a path, so the value that
  read returns, \<open>trap\<close>, is an argument of the function that reads.
\<close>

definition IsTrapThreadsRequested :: "bool \<Rightarrow> world \<Rightarrow> bool \<times> world" where
  "IsTrapThreadsRequested trap w = (trap, log_event (Read_TrapThreadsRequested trap) w)"

text \<open>
  The same macro on a condition that ends in a read of the trap flag,
  \<^verbatim>\<open>ASSERT(c || ThreadStore::IsTrapThreadsRequested())\<close>: the flag is read only when the
  assertion is compiled in and \<open>c\<close> is false.
\<close>

definition ASSERT_or_TrapThreadsRequested :: "externals \<Rightarrow> bool \<Rightarrow> bool \<Rightarrow> world \<Rightarrow> fatal + world" where
  "ASSERT_or_TrapThreadsRequested ext trap c w =
     (if asserts_enabled ext then
        (if c then Inr w
         else (let (b, w') = IsTrapThreadsRequested trap w
               in if b then Inr w' else Inl AssertionFailed))
      else Inr w)"

subsection \<open>Stack bounds\<close>

definition IsWithinStackBounds :: "externals \<Rightarrow> Thread \<Rightarrow> ptr \<Rightarrow> fatal + bool" where
  "IsWithinStackBounds ext t p =
     (case ASSERT ext (m_pStackLow t \<noteq> 0 \<and> m_pStackHigh t \<noteq> 0) of
        Inl e \<Rightarrow> Inl e
      | Inr _ \<Rightarrow> Inr (m_pStackLow t \<le> p \<and> p < m_pStackHigh t))"

subsection \<open>Registrations of conservatively reported frames\<close>

definition PushGCFrameRegistration :: "ptr \<Rightarrow> world \<Rightarrow> world" where
  "PushGCFrameRegistration pRegistration w =
     (let w1 = w\<lparr>gc_registrations := (gc_registrations w)
                   (pRegistration := (gc_registrations w pRegistration)
                      \<lparr>m_pNext := m_pGCFrameRegistrations (thread w)\<rparr>)\<rparr>
      in w1\<lparr>thread := (thread w1)\<lparr>m_pGCFrameRegistrations := pRegistration\<rparr>\<rparr>)"

definition PopGCFrameRegistration :: "externals \<Rightarrow> ptr \<Rightarrow> world \<Rightarrow> fatal + world" where
  "PopGCFrameRegistration ext pRegistration w =
     (case ASSERT ext (m_pGCFrameRegistrations (thread w) = pRegistration) of
        Inl e \<Rightarrow> Inl e
      | Inr _ \<Rightarrow>
          Inr (w\<lparr>thread := (thread w)
                 \<lparr>m_pGCFrameRegistrations := m_pNext (gc_registrations w pRegistration)\<rparr>\<rparr>))"

text \<open>
  The list the collector walks from \<^verbatim>\<open>m_pGCFrameRegistrations\<close>: \<open>registered h p ns\<close>
  holds when following \<^verbatim>\<open>m_pNext\<close> from \<open>p\<close> in the store \<open>h\<close> visits exactly the
  nodes \<open>ns\<close> and then reaches the null pointer.
\<close>

fun registered :: "(ptr \<Rightarrow> GCFrameRegistration) \<Rightarrow> ptr \<Rightarrow> ptr list \<Rightarrow> bool" where
  "registered h p [] = (p = 0)"
| "registered h p (n # ns) = (p \<noteq> 0 \<and> p = n \<and> registered h (m_pNext (h n)) ns)"

text \<open>
  A nested use of the registry: the nodes of a list are pushed in order, and later
  popped; each pop runs on the state the one before returned and the first failed
  assertion ends the run.
\<close>

fun push_all :: "ptr list \<Rightarrow> world \<Rightarrow> world" where
  "push_all [] w = w"
| "push_all (n # ns) w = push_all ns (PushGCFrameRegistration n w)"

fun pop_all :: "externals \<Rightarrow> ptr list \<Rightarrow> world \<Rightarrow> fatal + world" where
  "pop_all ext [] w = Inr w"
| "pop_all ext (n # ns) w =
     (case PopGCFrameRegistration ext n w of
        Inl e \<Rightarrow> Inl e
      | Inr w' \<Rightarrow> pop_all ext ns w')"

subsection \<open>Thread state flags and the execution mode\<close>

definition IsStateSet :: "Thread \<Rightarrow> uint32_t \<Rightarrow> bool" where
  "IsStateSet t flags = (m_ThreadStateFlags t AND flags = flags)"

definition IsDoNotTriggerGcSet :: "externals \<Rightarrow> Thread \<Rightarrow> bool" where
  "IsDoNotTriggerGcSet ext t = IsStateSet t (TSF_DoNotTriggerGc ext)"

definition IsCurrentThreadInCooperativeMode :: "externals \<Rightarrow> world \<Rightarrow> fatal + bool" where
  "IsCurrentThreadInCooperativeMode ext w =
     (case ASSERT ext (GetCurrentThread ext = this w) of
        Inl e \<Rightarrow> Inl e
      | Inr _ \<Rightarrow> Inr (m_pTransitionFrame (thread w) = 0))"

text \<open>
  A store to \<^verbatim>\<open>m_pTransitionFrame\<close>. \<^verbatim>\<open>VolatileStoreWithoutBarrier\<close> is only ever called
  on the address of that field; the plain assignment of
  \<^verbatim>\<open>InlineTryFastReversePInvoke\<close> writes the same field.
\<close>

definition set_m_pTransitionFrame :: "ptr \<Rightarrow> world \<Rightarrow> world" where
  "set_m_pTransitionFrame val w =
     log_event (Store_m_pTransitionFrame val) (w\<lparr>thread := (thread w)\<lparr>m_pTransitionFrame := val\<rparr>\<rparr>)"

definition VolatileStoreWithoutBarrier :: "ptr \<Rightarrow> world \<Rightarrow> world" where
  "VolatileStoreWithoutBarrier val w = set_m_pTransitionFrame val w"

definition set_m_pThread :: "ptr \<Rightarrow> ptr \<Rightarrow> world \<Rightarrow> world" where
  "set_m_pThread pFrame val w =
     log_event (Store_m_pThread pFrame val)
       (w\<lparr>pinvoke_frames := (pinvoke_frames w)(pFrame := (pinvoke_frames w pFrame)\<lparr>m_pThread := val\<rparr>)\<rparr>)"

definition set_m_savedPInvokeTransitionFrame :: "ptr \<Rightarrow> ptr \<Rightarrow> world \<Rightarrow> world" where
  "set_m_savedPInvokeTransitionFrame pFrame val w =
     log_event (Store_m_savedPInvokeTransitionFrame pFrame val)
       (w\<lparr>reverse_frames := (reverse_frames w)
             (pFrame := (reverse_frames w pFrame)\<lparr>m_savedPInvokeTransitionFrame := val\<rparr>)\<rparr>)"

subsection \<open>Transitions between managed and native code\<close>

definition InlineReversePInvokeReturn :: "ptr \<Rightarrow> world \<Rightarrow> world" where
  "InlineReversePInvokeReturn pFrame w =
     VolatileStoreWithoutBarrier (m_savedPInvokeTransitionFrame (reverse_frames w pFrame)) w"

definition InlinePInvoke :: "externals \<Rightarrow> bool \<Rightarrow> ptr \<Rightarrow> world \<Rightarrow> fatal + world" where
  "InlinePInvoke ext trap pFrame w =
     (case ASSERT_or_TrapThreadsRequested ext trap (\<not> IsDoNotTriggerGcSet ext (thread w)) w of
        Inl e \<Rightarrow> Inl e
      | Inr w1 \<Rightarrow>
          (let w2 = set_m_pThread pFrame (this w1) w1
           in Inr (VolatileStoreWithoutBarrier pFrame w2)))"

definition InlinePInvokeReturn :: "externals \<Rightarrow> bool \<Rightarrow> ptr \<Rightarrow> world \<Rightarrow> world" where
  "InlinePInvokeReturn ext trap pFrame w =
     (let w1 = VolatileStoreWithoutBarrier 0 w;
          (b, w2) = IsTrapThreadsRequested trap w1
      in if b then RhpWaitForGC2 ext pFrame (log_event (Call_RhpWaitForGC2 pFrame) w2)
         else w2)"

definition InlineTryFastReversePInvoke :: "externals \<Rightarrow> bool \<Rightarrow> ptr \<Rightarrow> world \<Rightarrow> fatal + bool \<times> world" where
  "InlineTryFastReversePInvoke ext trap pFrame w =
     (let w1 = set_m_savedPInvokeTransitionFrame pFrame (m_pTransitionFrame (thread w)) w
      in if IsDoNotTriggerGcSet ext (thread w1) then
           (case ASSERT_or_TrapThreadsRequested ext trap False w1 of
              Inl e \<Rightarrow> Inl e
            | Inr w2 \<Rightarrow> Inr (True, w2))
         else if \<not> IsStateSet (thread w1) (TSF_Attached ext) then Inr (False, w1)
         else
           (case IsCurrentThreadInCooperativeMode ext w1 of
              Inl e \<Rightarrow> Inl e
            | Inr coop \<Rightarrow>
                if coop then Inr (False, w1)
                else
                  (case ASSERT ext (\<not> IsGCSpecial ext (thread w1)) of
                     Inl e \<Rightarrow> Inl e
                   | Inr _ \<Rightarrow>
                       (let w2 = VolatileStoreWithoutBarrier 0 w1;
                            (b, w3) = IsTrapThreadsRequested trap w2
                        in if b then
                             Inr (False,
                                  set_m_pTransitionFrame
                                    (m_savedPInvokeTransitionFrame (reverse_frames w3 pFrame)) w3)
                           else Inr (True, w3)))))"

subsection \<open>A sample configuration\<close>

text \<open>
  Concrete parameters and a concrete thread, used where a statement is evaluated: the
  flag bits \<open>0x1\<close> (attached), \<open>0x10\<close> (do not trigger GC) and \<open>0x20\<close> (GC-special), a
  thread object at \<open>0x7000\<close> that is the current thread, and a wait routine that returns
  with the state as it found it.
\<close>

definition sample_externals :: "bool \<Rightarrow> externals" where
  "sample_externals dbg =
     \<lparr>asserts_enabled = dbg, TSF_Attached = 0x1, TSF_DoNotTriggerGc = 0x10,
      IsGCSpecial = (\<lambda>t. IsStateSet t 0x20), GetCurrentThread = 0x7000,
      RhpWaitForGC2 = (\<lambda>pFrame w. w)\<rparr>"

definition sample_thread :: "uint32_t \<Rightarrow> ptr \<Rightarrow> Thread" where
  "sample_thread flags frame =
     \<lparr>m_eeAllocContext = \<lparr>alloc_ptr = 1000, alloc_limit = 1000000, combined_limit = 1000000\<rparr>,
      m_pTransitionFrame = frame, m_pDeferredTransitionFrame = 0,
      m_pStackLow = 0x10000, m_pStackHigh = 0x20000,
      m_ThreadStateFlags = flags, m_pGCFrameRegistrations = 0, m_pThreadStressLog = 0\<rparr>"

definition sample_world :: "uint32_t \<Rightarrow> ptr \<Rightarrow> world" where
  "sample_world flags frame =
     \<lparr>this = 0x7000, thread = sample_thread flags frame,
      pinvoke_frames = (\<lambda>_. \<lparr>m_RIP = 0, m_pThread = 0\<rparr>),
      reverse_frames = (\<lambda>_. \<lparr>m_savedPInvokeTransitionFrame = 0\<rparr>),
      gc_registrations = (\<lambda>_. \<lparr>m_pNext = 0\<rparr>),
      trace = []\<rparr>"

lemmas transition_defs =
  InlineTryFastReversePInvoke_def InlinePInvoke_def InlinePInvokeReturn_def
  InlineReversePInvokeReturn_def VolatileStoreWithoutBarrier_def set_m_pTransitionFrame_def
  set_m_pThread_def set_m_savedPInvokeTransitionFrame_def IsTrapThreadsRequested_def
  ASSERT_or_TrapThreadsRequested_def ASSERT_def log_event_def
  IsCurrentThreadInCooperativeMode_def

lemmas registry_defs = PushGCFrameRegistration_def PopGCFrameRegistration_def ASSERT_def

lemmas sample_defs =
  sample_externals_def sample_world_def sample_thread_def IsDoNotTriggerGcSet_def IsStateSet_def

section \<open>Allocation context: combined limit\<close>

text \<open>
  Claim C7. With sampling disabled, \<open>UpdateCombinedLimit\<close> sets the combined limit to the
  allocation limit, whatever the allocation context and whatever the generator would
  have returned; the two allocation bounds are left as they were.
\<close>

theorem UpdateCombinedLimit_disabled:
  "combined_limit (UpdateCombinedLimit False rnd ctx) = alloc_limit ctx
   \<and> GetCombinedLimit (UpdateCombinedLimit False rnd ctx) = alloc_limit (UpdateCombinedLimit False rnd ctx)
   \<and> alloc_ptr (UpdateCombinedLimit False rnd ctx) = alloc_ptr ctx
   \<and> alloc_limit (UpdateCombinedLimit False rnd ctx) = alloc_limit ctx"
  by (simp add: UpdateCombinedLimit_def GetCombinedLimit_def)

subsection \<open>The sampling budget\<close>

lemma unat_SamplingDistributionMean: "real (unat SamplingDistributionMean) = 102400"
  by (simp add: SamplingDistributionMean_def)

lemma uint32_real_bound: "real (unat (v :: uint32_t)) \<le> 4294967295"
proof -
  have "unat v < 2 ^ 32" using unsigned_less [of v, where 'a = nat] by simp
  then have "unat v \<le> 4294967295" by simp
  then show ?thesis by linarith
qed

lemma NextDouble_eq: "NextDouble v = real (unat v) / 4294967296"
  by (simp add: NextDouble_def UINT32_MAX_def)

lemma NextDouble_range: "0 \<le> NextDouble v \<and> NextDouble v < 1"
proof -
  have "0 \<le> real (unat v)" by (rule of_nat_0_le_iff)
  then show ?thesis
    using uint32_real_bound [of v] unfolding NextDouble_eq by simp
qed

lemma NextDouble_le: "NextDouble v \<le> 1 - 1 / 4294967296"
  using uint32_real_bound [of v] unfolding NextDouble_eq by simp

lemma sampling_threshold_nonneg: "0 \<le> sampling_threshold v"
proof -
  have "ln (1 - NextDouble v) \<le> 0"
    using NextDouble_range [of v] by simp
  then show ?thesis
    unfolding sampling_threshold_def unat_SamplingDistributionMean by simp
qed

lemma ln_2_pow_32: "ln (4294967296::real) = 32 * ln 2"
proof -
  have "(4294967296::real) = 2 ^ 32" by simp
  then show ?thesis using ln_realpow [of 2 32] by simp
qed

text \<open>
  The largest threshold is drawn at \<open>v = 2^32 - 1\<close>, where it is \<open>32 * ln 2 * 102400\<close>:
  every threshold is below \<open>2^32\<close> and its conversion to \<^verbatim>\<open>uint32_t\<close> is defined.
\<close>

lemma sampling_threshold_upper: "sampling_threshold v < 4294967296"
proof -
  have pos: "0 < 1 - NextDouble v" using NextDouble_range [of v] by simp
  have "1 / 4294967296 \<le> 1 - NextDouble v" using NextDouble_le [of v] by simp
  then have "ln (1 / 4294967296 :: real) \<le> ln (1 - NextDouble v)"
    using pos by (subst ln_le_cancel_iff) simp_all
  moreover have "ln (1 / 4294967296 :: real) = - (32 * ln 2)"
    by (simp add: ln_div ln_2_pow_32)
  ultimately have "- ln (1 - NextDouble v) \<le> 32 * ln 2" by simp
  also have "\<dots> < 32" using ln_2_less_1 by simp
  finally have "- ln (1 - NextDouble v) < 32" .
  then have "- ln (1 - NextDouble v) * 102400 < 32 * 102400" by simp
  then show ?thesis
    unfolding sampling_threshold_def unat_SamplingDistributionMean by simp
qed

lemma ComputeGeometricRandom_in_range:
  "unat (ComputeGeometricRandom v) = nat \<lfloor>sampling_threshold v\<rfloor>"
proof -
  have nn: "0 \<le> \<lfloor>sampling_threshold v\<rfloor>" using sampling_threshold_nonneg [of v] by simp
  have "\<lfloor>sampling_threshold v\<rfloor> < 4294967296"
    using sampling_threshold_upper [of v] by (simp add: floor_less_iff)
  then have "unat (word_of_int \<lfloor>sampling_threshold v\<rfloor> :: uint32_t) = nat \<lfloor>sampling_threshold v\<rfloor>"
    using nn by (simp add: unat_eq_nat_uint uint_word_of_int)
  then show ?thesis
    using sampling_threshold_nonneg [of v]
    by (simp add: ComputeGeometricRandom_def double_to_uint32_def)
qed

text \<open>The draw \<open>v = 1\<close>: the threshold is about \<open>0.0000238\<close>, strictly between 0 and 1.\<close>

lemma sampling_threshold_1: "0 < sampling_threshold 1 \<and> sampling_threshold 1 < 1"
proof -
  let ?u = "1 / 4294967296 :: real"
  have nd: "NextDouble 1 = ?u" by (simp add: NextDouble_eq)
  have "ln (1 - ?u) < 0" by simp
  then have lo: "0 < - ln (1 - ?u) * 102400" by simp
  have "- ?u - 2 * ?u\<^sup>2 \<le> ln (1 - ?u)"
    by (rule ln_one_minus_pos_lower_bound) simp_all
  then have "- ln (1 - ?u) \<le> ?u + 2 * ?u\<^sup>2" by simp
  also have "\<dots> < 1 / 102400" by (simp add: power2_eq_square)
  finally have "- ln (1 - ?u) * 102400 < 1" by simp
  with lo show ?thesis
    unfolding sampling_threshold_def unat_SamplingDistributionMean nd by simp
qed

text \<open>
  Claim C2, as stated: the budget is the ceiling of \<open>- ln (1 - U) * 102400\<close>. The source
  converts the double to \<^verbatim>\<open>uint32_t\<close>, which discards the fraction. At the draw
  \<open>v = 1\<close>, that is \<open>U = 2^-32\<close>, the source's budget is 0 and the ceiling is 1.
\<close>

theorem ComputeGeometricRandom_not_ceiling:
  "NextDouble 1 = 1 / 4294967296
   \<and> ComputeGeometricRandom 1 = 0
   \<and> \<lceil>- ln (1 - NextDouble 1) * 102400\<rceil> = 1"
proof -
  have th: "sampling_threshold 1 = - ln (1 - NextDouble 1) * 102400"
    unfolding sampling_threshold_def unat_SamplingDistributionMean ..
  have "\<lfloor>sampling_threshold 1\<rfloor> = 0"
    using sampling_threshold_1 by (simp add: floor_eq_iff)
  then have "ComputeGeometricRandom 1 = 0"
    using sampling_threshold_1 by (simp add: ComputeGeometricRandom_def double_to_uint32_def)
  moreover have "\<lceil>sampling_threshold 1\<rceil> = 1"
    using sampling_threshold_1 by (simp add: ceiling_eq_iff)
  moreover have "NextDouble 1 = 1 / 4294967296" by (simp add: NextDouble_eq)
  ultimately show ?thesis unfolding th by (simp only: simp_thms)
qed

text \<open>
  Claim C2, amended. With sampling enabled the draw \<open>U\<close> is \<open>rnd / 2^32\<close>, in \<open>[0,1)\<close>;
  the budget is \<open>- ln (1 - U) * 102400\<close> with its fraction discarded (the floor, as the
  value is not negative) and it fits 32 bits; the combined limit is the allocation
  pointer plus the smaller of the budget and the room left, the minimum being taken
  before the addition.
\<close>

theorem UpdateCombinedLimit_sampling_budget:
  "0 \<le> NextDouble rnd \<and> NextDouble rnd < 1
   \<and> int (unat (ComputeGeometricRandom rnd)) = \<lfloor>- ln (1 - NextDouble rnd) * 102400\<rfloor>
   \<and> combined_limit (UpdateCombinedLimit True rnd ctx)
       = alloc_ptr ctx + min (ucast (ComputeGeometricRandom rnd)) (alloc_limit ctx - alloc_ptr ctx)"
proof -
  have th: "sampling_threshold rnd = - ln (1 - NextDouble rnd) * 102400"
    unfolding sampling_threshold_def unat_SamplingDistributionMean ..
  have "int (unat (ComputeGeometricRandom rnd)) = \<lfloor>sampling_threshold rnd\<rfloor>"
    using sampling_threshold_nonneg [of rnd]
    by (simp add: ComputeGeometricRandom_in_range)
  then have "int (unat (ComputeGeometricRandom rnd)) = \<lfloor>- ln (1 - NextDouble rnd) * 102400\<rfloor>"
    unfolding th .
  moreover have "combined_limit (UpdateCombinedLimit True rnd ctx)
       = alloc_ptr ctx + min (ucast (ComputeGeometricRandom rnd)) (alloc_limit ctx - alloc_ptr ctx)"
    by (simp add: UpdateCombinedLimit_def Let_def)
  ultimately show ?thesis using NextDouble_range [of rnd] by (simp only: simp_thms)
qed

subsection \<open>Bounds of the combined limit\<close>

lemma unat_widen: "unat (ucast (x :: 32 word) :: 64 word) = unat x"
proof -
  have "unat x < 2 ^ 32" using unsigned_less [of x, where 'a = nat] by simp
  then have "unat x < 2 ^ 64" by simp
  then have "take_bit 64 (unat x) = unat x" by (simp only: take_bit_nat_eq_self)
  then show ?thesis by (simp add: unsigned_ucast_eq)
qed

lemma clamp_add_bounds:
  fixes a l b :: "64 word"
  assumes "a \<le> l"
  shows "unat a + unat (min b (l - a)) \<le> unat l"
    and "a \<le> a + min b (l - a)"
    and "a + min b (l - a) \<le> l"
proof -
  have sz: "unat (l - a) = unat l - unat a" using assms by (simp add: unat_sub)
  have "min b (l - a) \<le> l - a" by simp
  then have m: "unat (min b (l - a)) \<le> unat l - unat a"
    unfolding word_le_nat_alt sz .
  have al: "unat a \<le> unat l" using assms by (simp add: word_le_nat_alt)
  show sum: "unat a + unat (min b (l - a)) \<le> unat l" using m al by linarith
  have "unat l < 2 ^ 64" using unsigned_less [of l, where 'a = nat] by simp
  then have "unat a + unat (min b (l - a)) < 2 ^ LENGTH(64)" using sum by simp
  then have eq: "unat (a + min b (l - a)) = unat a + unat (min b (l - a))"
    by (simp only: unat_add_lem)
  show "a \<le> a + min b (l - a)" unfolding word_le_nat_alt eq by simp
  show "a + min b (l - a) \<le> l" unfolding word_le_nat_alt eq using sum .
qed

text \<open>
  Claim C3. For an allocation context with \<open>alloc_ptr \<le> alloc_limit\<close> (equality
  included) and every value \<open>rnd\<close> of the generator, \<open>UpdateCombinedLimit True\<close> leaves
  \<open>alloc_ptr \<le> combined_limit \<le> alloc_limit\<close>. The addition does not wrap: the sum of
  the pointer and the clamped budget, taken in the natural numbers, is below \<open>2^64\<close> and
  is the value of the new combined limit. The allocation bounds are not changed.
\<close>

theorem UpdateCombinedLimit_sampling_bounds:
  assumes "alloc_ptr ctx \<le> alloc_limit ctx"
  shows "alloc_ptr ctx \<le> combined_limit (UpdateCombinedLimit True rnd ctx)
       \<and> combined_limit (UpdateCombinedLimit True rnd ctx) \<le> alloc_limit ctx
       \<and> unat (alloc_ptr ctx)
           + unat (min (ucast (ComputeGeometricRandom rnd)) (alloc_limit ctx - alloc_ptr ctx))
           < 2 ^ 64
       \<and> unat (combined_limit (UpdateCombinedLimit True rnd ctx))
           = unat (alloc_ptr ctx)
             + min (unat (ComputeGeometricRandom rnd)) (unat (alloc_limit ctx) - unat (alloc_ptr ctx))
       \<and> alloc_ptr (UpdateCombinedLimit True rnd ctx) = alloc_ptr ctx
       \<and> alloc_limit (UpdateCombinedLimit True rnd ctx) = alloc_limit ctx"
proof -
  let ?a = "alloc_ptr ctx" and ?l = "alloc_limit ctx"
  let ?b = "ucast (ComputeGeometricRandom rnd) :: size_t"
  have cl: "combined_limit (UpdateCombinedLimit True rnd ctx) = ?a + min ?b (?l - ?a)"
    by (simp add: UpdateCombinedLimit_def Let_def)
  have sum: "unat ?a + unat (min ?b (?l - ?a)) \<le> unat ?l"
    using assms by (rule clamp_add_bounds(1))
  have "unat ?l < 2 ^ 64" using unsigned_less [of ?l, where 'a = nat] by simp
  with sum have no_ovf: "unat ?a + unat (min ?b (?l - ?a)) < 2 ^ 64" by linarith
  then have "unat ?a + unat (min ?b (?l - ?a)) < 2 ^ LENGTH(64)" by simp
  then have eq: "unat (?a + min ?b (?l - ?a)) = unat ?a + unat (min ?b (?l - ?a))"
    by (simp only: unat_add_lem)
  have ub: "unat ?b = unat (ComputeGeometricRandom rnd)"
    by (rule unat_widen)
  have sz: "unat (?l - ?a) = unat ?l - unat ?a" using assms by (simp add: unat_sub)
  have "unat (min ?b (?l - ?a)) = min (unat ?b) (unat (?l - ?a))"
    by (simp add: min_def word_le_nat_alt)
  then have mn: "unat (min ?b (?l - ?a))
      = min (unat (ComputeGeometricRandom rnd)) (unat ?l - unat ?a)"
    by (simp only: ub sz)
  have fr: "alloc_ptr (UpdateCombinedLimit True rnd ctx) = ?a
      \<and> alloc_limit (UpdateCombinedLimit True rnd ctx) = ?l"
    by (simp add: UpdateCombinedLimit_def Let_def)
  show ?thesis
    unfolding cl
    using clamp_add_bounds(2) [OF assms, of ?b] clamp_add_bounds(3) [OF assms, of ?b]
      no_ovf eq mn fr
    by (simp only: simp_thms)
qed

text \<open>
  The boundary case of C3, \<open>alloc_ptr = alloc_limit = 1000\<close>: the budget is clamped to
  zero and the combined limit is 1000.
\<close>

theorem UpdateCombinedLimit_sampling_bounds_witness:
  "(1000 :: ptr) \<le> 1000
   \<and> combined_limit (UpdateCombinedLimit True 77
        \<lparr>alloc_ptr = 1000, alloc_limit = 1000, combined_limit = 5\<rparr>) = 1000"
proof -
  let ?ctx = "\<lparr>alloc_ptr = 1000, alloc_limit = 1000, combined_limit = 5\<rparr> :: ee_alloc_context"
  have h: "alloc_ptr ?ctx \<le> alloc_limit ?ctx" by simp
  have "alloc_ptr ?ctx \<le> combined_limit (UpdateCombinedLimit True 77 ?ctx)"
    and "combined_limit (UpdateCombinedLimit True 77 ?ctx) \<le> alloc_limit ?ctx"
    using UpdateCombinedLimit_sampling_bounds [OF h, of 77] by blast+
  then show ?thesis by simp
qed

section \<open>Mode transitions\<close>

subsection \<open>Return from native code\<close>

text \<open>
  Claim C5. \<open>InlinePInvokeReturn\<close> first stores null to \<^verbatim>\<open>m_pTransitionFrame\<close> and only
  then reads the trap flag: the two events enter the trace in that order. If the flag
  is set, the result is that of \<^verbatim>\<open>RhpWaitForGC2\<close> called with the frame, in a state whose
  transition frame is already null. If it is clear, the function returns with the
  transition frame null, that is in cooperative mode, and nothing else changed.
\<close>

theorem InlinePInvokeReturn_publish_then_check:
  "(trap \<longrightarrow>
      InlinePInvokeReturn ext trap pFrame w
        = RhpWaitForGC2 ext pFrame
            (w\<lparr>thread := (thread w)\<lparr>m_pTransitionFrame := 0\<rparr>,
               trace := trace w @ [Store_m_pTransitionFrame 0, Read_TrapThreadsRequested True,
                                   Call_RhpWaitForGC2 pFrame]\<rparr>))
   \<and> (\<not> trap \<longrightarrow>
      InlinePInvokeReturn ext trap pFrame w
        = w\<lparr>thread := (thread w)\<lparr>m_pTransitionFrame := 0\<rparr>,
             trace := trace w @ [Store_m_pTransitionFrame 0, Read_TrapThreadsRequested False]\<rparr>
      \<and> m_pTransitionFrame (thread (InlinePInvokeReturn ext trap pFrame w)) = 0
      \<and> (GetCurrentThread ext = this w \<longrightarrow>
           IsCurrentThreadInCooperativeMode ext (InlinePInvokeReturn ext trap pFrame w) = Inr True))"
  by (simp add: transition_defs Let_def)

text \<open>
  The scenario of C5 on the sample thread: attached, it enters preemptive mode with the
  frame at \<open>0x5000\<close> and returns with no suspension pending.
\<close>

theorem InlinePInvokeReturn_publish_then_check_witness:
  "(case InlinePInvoke (sample_externals True) False 0x5000 (sample_world 0x1 0) of
      Inl e \<Rightarrow> False
    | Inr w1 \<Rightarrow>
        m_pTransitionFrame (thread w1) = 0x5000
        \<and> m_pTransitionFrame (thread (InlinePInvokeReturn (sample_externals True) False 0x5000 w1)) = 0
        \<and> IsCurrentThreadInCooperativeMode (sample_externals True)
             (InlinePInvokeReturn (sample_externals True) False 0x5000 w1) = Inr True
        \<and> trace (InlinePInvokeReturn (sample_externals True) False 0x5000 w1)
            = trace w1 @ [Store_m_pTransitionFrame 0, Read_TrapThreadsRequested False]
        \<and> trace (InlinePInvokeReturn (sample_externals True) True 0x5000 w1)
            = trace w1 @ [Store_m_pTransitionFrame 0, Read_TrapThreadsRequested True,
                          Call_RhpWaitForGC2 0x5000])"
proof -
  let ?ext = "sample_externals True"
  obtain w1 where w1: "InlinePInvoke ?ext False 0x5000 (sample_world 0x1 0) = Inr w1"
    and tf: "m_pTransitionFrame (thread w1) = 0x5000"
    and cur: "GetCurrentThread ?ext = this w1"
    by (simp add: transition_defs sample_defs Let_def)
  have wait: "RhpWaitForGC2 ?ext = (\<lambda>pFrame w. w)" by (simp add: sample_externals_def)
  note no_trap = InlinePInvokeReturn_publish_then_check [of False ?ext "0x5000" w1]
  note trapped = InlinePInvokeReturn_publish_then_check [of True ?ext "0x5000" w1]
  have e: "InlinePInvokeReturn ?ext False 0x5000 w1
        = w1\<lparr>thread := (thread w1)\<lparr>m_pTransitionFrame := 0\<rparr>,
             trace := trace w1 @ [Store_m_pTransitionFrame 0, Read_TrapThreadsRequested False]\<rparr>"
    and z: "m_pTransitionFrame (thread (InlinePInvokeReturn ?ext False 0x5000 w1)) = 0"
    and c: "IsCurrentThreadInCooperativeMode ?ext (InlinePInvokeReturn ?ext False 0x5000 w1) = Inr True"
    using no_trap cur by blast+
  have t1: "trace (InlinePInvokeReturn ?ext False 0x5000 w1)
      = trace w1 @ [Store_m_pTransitionFrame 0, Read_TrapThreadsRequested False]"
    by (subst e) simp
  have t2: "trace (InlinePInvokeReturn ?ext True 0x5000 w1)
      = trace w1 @ [Store_m_pTransitionFrame 0, Read_TrapThreadsRequested True,
                    Call_RhpWaitForGC2 0x5000]"
    using trapped by (simp add: wait)
  show ?thesis
    unfolding w1 using tf z c t1 t2 by (simp only: sum.case simp_thms)
qed

subsection \<open>Call into native code\<close>

text \<open>
  Claim C8, as stated: a call that violates the precondition is a fatal internal error.
  The source checks the precondition with \<^verbatim>\<open>ASSERT\<close> only. On the sample thread with the
  do-not-trigger-GC flag set (flags \<open>0x11\<close>) and no suspension requested, a build without
  assertions does not fail: the call returns, the frame at \<open>0x5000\<close> holds the thread
  pointer and is the transition frame, and the trap flag has not been read.
\<close>

theorem InlinePInvoke_unchecked_without_asserts:
  "IsDoNotTriggerGcSet (sample_externals False) (thread (sample_world 0x11 0))
   \<and> InlinePInvoke (sample_externals False) False 0x5000 (sample_world 0x11 0)
       \<noteq> Inl AssertionFailed
   \<and> map_sum id (\<lambda>w'. m_pTransitionFrame (thread w'))
        (InlinePInvoke (sample_externals False) False 0x5000 (sample_world 0x11 0)) = Inr 0x5000
   \<and> map_sum id (\<lambda>w'. m_pThread (pinvoke_frames w' 0x5000))
        (InlinePInvoke (sample_externals False) False 0x5000 (sample_world 0x11 0)) = Inr 0x7000
   \<and> map_sum id trace
        (InlinePInvoke (sample_externals False) False 0x5000 (sample_world 0x11 0))
       = Inr [Store_m_pThread 0x5000 0x7000, Store_m_pTransitionFrame 0x5000]"
  by (simp add: transition_defs sample_defs Let_def)

text \<open>
  Claim C8, amended. \<open>InlinePInvoke\<close> stores the thread pointer into the frame and then
  stores the frame to \<^verbatim>\<open>m_pTransitionFrame\<close>, in that order; the transition frame is then
  the frame passed, so for a frame that is not null the thread is in preemptive mode; no
  other frame and no other field of the thread is written. Its precondition is that the
  do-not-trigger-GC flag is clear or a suspension is requested. In a build with
  assertions a call that violates it ends in the failed assertion and returns no state.
  In a build without assertions the precondition is not checked: the flag is not read
  and the call stores and returns as it does when the precondition holds.
\<close>

theorem InlinePInvoke_publishes_frame:
  "(asserts_enabled ext \<and> IsDoNotTriggerGcSet ext (thread w) \<and> \<not> trap \<longrightarrow>
      InlinePInvoke ext trap pFrame w = Inl AssertionFailed)
   \<and> (\<not> (asserts_enabled ext \<and> IsDoNotTriggerGcSet ext (thread w) \<and> \<not> trap) \<longrightarrow>
      (\<exists>w'. InlinePInvoke ext trap pFrame w = Inr w'
         \<and> m_pThread (pinvoke_frames w' pFrame) = this w
         \<and> pinvoke_frames w'
             = (pinvoke_frames w)(pFrame := (pinvoke_frames w pFrame)\<lparr>m_pThread := this w\<rparr>)
         \<and> thread w' = (thread w)\<lparr>m_pTransitionFrame := pFrame\<rparr>
         \<and> m_pTransitionFrame (thread w') = pFrame
         \<and> (pFrame \<noteq> 0 \<and> GetCurrentThread ext = this w \<longrightarrow>
               IsCurrentThreadInCooperativeMode ext w' = Inr False)
         \<and> trace w' = trace w
             @ (if asserts_enabled ext \<and> IsDoNotTriggerGcSet ext (thread w)
                then [Read_TrapThreadsRequested True] else [])
             @ [Store_m_pThread pFrame (this w), Store_m_pTransitionFrame pFrame]))"
  by (simp add: transition_defs Let_def)

text \<open>
  The amended C8 on the sample thread. With assertions compiled in: with the
  do-not-trigger-GC flag set and no suspension requested the call is fatal; on the
  attached thread without the flag it publishes the frame at \<open>0x5000\<close>. Without
  assertions the call with the flag set and no suspension requested publishes the frame
  too.
\<close>

theorem InlinePInvoke_publishes_frame_witness:
  "InlinePInvoke (sample_externals True) False 0x5000 (sample_world 0x11 0) = Inl AssertionFailed
   \<and> (\<exists>w'. InlinePInvoke (sample_externals True) False 0x5000 (sample_world 0x1 0) = Inr w'
         \<and> m_pThread (pinvoke_frames w' 0x5000) = 0x7000
         \<and> m_pTransitionFrame (thread w') = 0x5000
         \<and> trace w' = [Store_m_pThread 0x5000 0x7000, Store_m_pTransitionFrame 0x5000])
   \<and> (\<exists>w'. InlinePInvoke (sample_externals False) False 0x5000 (sample_world 0x11 0) = Inr w'
         \<and> m_pThread (pinvoke_frames w' 0x5000) = 0x7000
         \<and> m_pTransitionFrame (thread w') = 0x5000
         \<and> trace w' = [Store_m_pThread 0x5000 0x7000, Store_m_pTransitionFrame 0x5000])"
proof -
  let ?ext = "sample_externals True" and ?rel = "sample_externals False"
  have dnt: "IsDoNotTriggerGcSet ?ext (thread (sample_world 0x11 0))"
    and no_dnt: "\<not> IsDoNotTriggerGcSet ?ext (thread (sample_world 0x1 0))"
    and dbg: "asserts_enabled ?ext"
    and rel: "\<not> asserts_enabled ?rel"
    and self: "this (sample_world 0x1 0) = 0x7000" "this (sample_world 0x11 0) = 0x7000"
    and tr: "trace (sample_world 0x1 0) = []" "trace (sample_world 0x11 0) = []"
    by (simp_all add: sample_defs)
  have "InlinePInvoke ?ext False 0x5000 (sample_world 0x11 0) = Inl AssertionFailed"
    using InlinePInvoke_publishes_frame [of ?ext "sample_world 0x11 0" False "0x5000"] dnt dbg
    by blast
  moreover have "\<exists>w'. InlinePInvoke ?ext False 0x5000 (sample_world 0x1 0) = Inr w'
         \<and> m_pThread (pinvoke_frames w' 0x5000) = 0x7000
         \<and> m_pTransitionFrame (thread w') = 0x5000
         \<and> trace w' = [Store_m_pThread 0x5000 0x7000, Store_m_pTransitionFrame 0x5000]"
    using InlinePInvoke_publishes_frame [of ?ext "sample_world 0x1 0" False "0x5000"] no_dnt
    by (simp add: self tr) blast
  moreover have "\<exists>w'. InlinePInvoke ?rel False 0x5000 (sample_world 0x11 0) = Inr w'
         \<and> m_pThread (pinvoke_frames w' 0x5000) = 0x7000
         \<and> m_pTransitionFrame (thread w') = 0x5000
         \<and> trace w' = [Store_m_pThread 0x5000 0x7000, Store_m_pTransitionFrame 0x5000]"
    using InlinePInvoke_publishes_frame [of ?rel "sample_world 0x11 0" False "0x5000"] rel
    by (simp add: self tr) blast
  ultimately show ?thesis by blast
qed

subsection \<open>Call from native code: the fast path\<close>

text \<open>
  Claim C6. With the do-not-trigger-GC flag set, \<open>InlineTryFastReversePInvoke\<close> returns
  true without a transition: the thread object, and with it \<^verbatim>\<open>m_pTransitionFrame\<close>, is
  unchanged and no store to the transition frame enters the trace; only the current
  frame has been saved into \<open>pFrame\<close>. The precondition of this path is that a
  suspension is requested: where assertions are compiled in and none is, the call ends
  in the failed assertion.
\<close>

theorem InlineTryFastReversePInvoke_DoNotTriggerGc:
  assumes "IsDoNotTriggerGcSet ext (thread w)"
  shows "(asserts_enabled ext \<and> \<not> trap \<longrightarrow>
            InlineTryFastReversePInvoke ext trap pFrame w = Inl AssertionFailed)
       \<and> (\<not> (asserts_enabled ext \<and> \<not> trap) \<longrightarrow>
            (\<exists>w'. InlineTryFastReversePInvoke ext trap pFrame w = Inr (True, w')
               \<and> thread w' = thread w
               \<and> m_pTransitionFrame (thread w') = m_pTransitionFrame (thread w)
               \<and> m_savedPInvokeTransitionFrame (reverse_frames w' pFrame)
                   = m_pTransitionFrame (thread w)
               \<and> trace w' = trace w
                   @ [Store_m_savedPInvokeTransitionFrame pFrame (m_pTransitionFrame (thread w))]
                   @ (if asserts_enabled ext then [Read_TrapThreadsRequested True] else [])))"
  using assms by (simp add: transition_defs Let_def IsDoNotTriggerGcSet_def)

text \<open>
  C6 on the sample thread with flags \<open>0x11\<close> in preemptive mode at frame \<open>0x5000\<close>.
\<close>

theorem InlineTryFastReversePInvoke_DoNotTriggerGc_witness:
  "IsDoNotTriggerGcSet (sample_externals True) (thread (sample_world 0x11 0x5000))
   \<and> InlineTryFastReversePInvoke (sample_externals True) False 0x6000 (sample_world 0x11 0x5000)
       = Inl AssertionFailed
   \<and> (\<exists>w'. InlineTryFastReversePInvoke (sample_externals True) True 0x6000 (sample_world 0x11 0x5000)
             = Inr (True, w')
         \<and> m_pTransitionFrame (thread w') = 0x5000
         \<and> trace w' = [Store_m_savedPInvokeTransitionFrame 0x6000 0x5000,
                        Read_TrapThreadsRequested True])"
proof -
  let ?ext = "sample_externals True"
  let ?w = "sample_world 0x11 0x5000"
  have dnt: "IsDoNotTriggerGcSet ?ext (thread ?w)"
    and dbg: "asserts_enabled ?ext"
    and tf: "m_pTransitionFrame (thread ?w) = 0x5000"
    and tr: "trace ?w = []"
    by (simp_all add: sample_defs)
  have "InlineTryFastReversePInvoke ?ext False 0x6000 ?w = Inl AssertionFailed"
    using InlineTryFastReversePInvoke_DoNotTriggerGc [OF dnt, of False "0x6000"] dbg by blast
  moreover have "\<exists>w'. InlineTryFastReversePInvoke ?ext True 0x6000 ?w = Inr (True, w')
         \<and> m_pTransitionFrame (thread w') = 0x5000
         \<and> trace w' = [Store_m_savedPInvokeTransitionFrame 0x6000 0x5000,
                        Read_TrapThreadsRequested True]"
    using InlineTryFastReversePInvoke_DoNotTriggerGc [OF dnt, of True "0x6000"] dbg
    by (simp add: tf tr) blast
  ultimately show ?thesis using dnt by blast
qed

text \<open>
  Claim C4. Whenever \<open>InlineTryFastReversePInvoke\<close> on a frame returns, with either
  result, \<open>InlineReversePInvokeReturn\<close> on the same frame, run on the state it returned,
  leaves \<^verbatim>\<open>m_pTransitionFrame\<close> equal to its value before the first call, null or not.
  Without assertions the first call always returns.
\<close>

theorem fast_reentry_restores_frame:
  "(InlineTryFastReversePInvoke ext trap pFrame w = Inr (ok, w') \<longrightarrow>
      m_pTransitionFrame (thread (InlineReversePInvokeReturn pFrame w'))
        = m_pTransitionFrame (thread w))
   \<and> (\<not> asserts_enabled ext \<longrightarrow>
        (\<exists>ok w'. InlineTryFastReversePInvoke ext trap pFrame w = Inr (ok, w')))"
  by (auto simp add: transition_defs Let_def split: if_splits)

text \<open>
  C4 on the sample thread: from the prior frame \<open>0x5000\<close> the fast path succeeds, the
  frame is null in between and \<open>0x5000\<close> again after the return; from the prior value
  null the fast path declines and the frame is null after the return.
\<close>

theorem fast_reentry_restores_frame_witness:
  "(case InlineTryFastReversePInvoke (sample_externals True) False 0x6000 (sample_world 0x1 0x5000) of
      Inl e \<Rightarrow> False
    | Inr (ok, w') \<Rightarrow>
        ok \<and> m_pTransitionFrame (thread w') = 0
        \<and> m_pTransitionFrame (thread (InlineReversePInvokeReturn 0x6000 w')) = 0x5000)
   \<and> (case InlineTryFastReversePInvoke (sample_externals True) False 0x6000 (sample_world 0x1 0) of
      Inl e \<Rightarrow> False
    | Inr (ok, w') \<Rightarrow>
        \<not> ok \<and> m_pTransitionFrame (thread (InlineReversePInvokeReturn 0x6000 w')) = 0)"
proof -
  let ?ext = "sample_externals True"
  obtain w1 where r1: "InlineTryFastReversePInvoke ?ext False 0x6000 (sample_world 0x1 0x5000) = Inr (True, w1)"
    and z1: "m_pTransitionFrame (thread w1) = 0"
    by (simp add: transition_defs sample_defs Let_def)
  obtain w2 where r2: "InlineTryFastReversePInvoke ?ext False 0x6000 (sample_world 0x1 0) = Inr (False, w2)"
    by (simp add: transition_defs sample_defs Let_def)
  have p1: "m_pTransitionFrame (thread (sample_world 0x1 0x5000)) = 0x5000"
    and p2: "m_pTransitionFrame (thread (sample_world 0x1 0)) = 0"
    by (simp_all add: sample_defs)
  have "m_pTransitionFrame (thread (InlineReversePInvokeReturn 0x6000 w1)) = 0x5000"
    using fast_reentry_restores_frame [of ?ext False "0x6000" "sample_world 0x1 0x5000" True w1] r1 p1
    by simp
  moreover have "m_pTransitionFrame (thread (InlineReversePInvokeReturn 0x6000 w2)) = 0"
    using fast_reentry_restores_frame [of ?ext False "0x6000" "sample_world 0x1 0" False w2] r2 p2
    by simp
  ultimately show ?thesis by (simp add: r1 r2 z1)
qed

text \<open>
  Claim C1, as stated: the fast path returns false whenever the thread is not attached,
  and on every GC-special thread whose do-not-trigger-GC flag is clear. Three calls on
  the sample thread contradict it. A thread that is not attached but has the
  do-not-trigger-GC flag set (flags \<open>0x10\<close>) gets true. A GC-special, attached thread in
  preemptive mode with the flag clear (flags \<open>0x21\<close>) and no suspension requested gets
  true where assertions are not compiled in, and the failed assertion, not false, where
  they are.
\<close>

theorem InlineTryFastReversePInvoke_GCSpecial_not_declined:
  "\<not> IsStateSet (thread (sample_world 0x10 0x5000)) (TSF_Attached (sample_externals True))
   \<and> map_sum id fst (InlineTryFastReversePInvoke (sample_externals True) True 0x6000
        (sample_world 0x10 0x5000)) = Inr True
   \<and> IsGCSpecial (sample_externals False) (thread (sample_world 0x21 0x5000))
   \<and> \<not> IsDoNotTriggerGcSet (sample_externals False) (thread (sample_world 0x21 0x5000))
   \<and> map_sum id fst (InlineTryFastReversePInvoke (sample_externals False) False 0x6000
        (sample_world 0x21 0x5000)) = Inr True
   \<and> map_sum id fst (InlineTryFastReversePInvoke (sample_externals True) False 0x6000
        (sample_world 0x21 0x5000)) = Inl AssertionFailed"
  by (simp add: transition_defs sample_defs Let_def)

text \<open>
  Claim C1, amended. With the do-not-trigger-GC flag clear, the fast path returns false
  when the thread is not attached, and when it is attached and already in cooperative
  mode (called on the current thread, as the assertion of
  \<open>IsCurrentThreadInCooperativeMode\<close> demands); in both cases only the frame has been
  written and the thread object is unchanged. A GC-special thread is not declined: on
  an attached thread in preemptive mode the source only asserts that the thread is not
  GC-special, so with assertions the call ends in the failed assertion, and without
  them the result depends on the trap flag alone.
\<close>

theorem InlineTryFastReversePInvoke_declines:
  assumes "\<not> IsDoNotTriggerGcSet ext (thread w)"
  shows "(\<not> IsStateSet (thread w) (TSF_Attached ext) \<longrightarrow>
            InlineTryFastReversePInvoke ext trap pFrame w
              = Inr (False, set_m_savedPInvokeTransitionFrame pFrame (m_pTransitionFrame (thread w)) w))
       \<and> (IsStateSet (thread w) (TSF_Attached ext) \<and> m_pTransitionFrame (thread w) = 0
            \<and> (asserts_enabled ext \<longrightarrow> GetCurrentThread ext = this w) \<longrightarrow>
            InlineTryFastReversePInvoke ext trap pFrame w
              = Inr (False, set_m_savedPInvokeTransitionFrame pFrame (m_pTransitionFrame (thread w)) w))
       \<and> thread (set_m_savedPInvokeTransitionFrame pFrame (m_pTransitionFrame (thread w)) w) = thread w
       \<and> (IsStateSet (thread w) (TSF_Attached ext) \<and> m_pTransitionFrame (thread w) \<noteq> 0
            \<and> IsGCSpecial ext (thread w) \<and> asserts_enabled ext \<and> GetCurrentThread ext = this w \<longrightarrow>
            InlineTryFastReversePInvoke ext trap pFrame w = Inl AssertionFailed)
       \<and> (IsStateSet (thread w) (TSF_Attached ext) \<and> m_pTransitionFrame (thread w) \<noteq> 0
            \<and> \<not> asserts_enabled ext \<longrightarrow>
            map_sum id fst (InlineTryFastReversePInvoke ext trap pFrame w) = Inr (\<not> trap))"
  using assms by (simp add: transition_defs Let_def IsDoNotTriggerGcSet_def)

text \<open>
  The amended C1 on the sample thread: not attached (flags \<open>0\<close>), attached and
  cooperative (flags \<open>0x1\<close>, frame null), and GC-special (flags \<open>0x21\<close>) in both builds.
\<close>

theorem InlineTryFastReversePInvoke_declines_witness:
  "\<not> IsDoNotTriggerGcSet (sample_externals True) (thread (sample_world 0x0 0x5000))
   \<and> \<not> IsStateSet (thread (sample_world 0x0 0x5000)) (TSF_Attached (sample_externals True))
   \<and> map_sum id fst (InlineTryFastReversePInvoke (sample_externals True) False 0x6000
        (sample_world 0x0 0x5000)) = Inr False
   \<and> \<not> IsDoNotTriggerGcSet (sample_externals True) (thread (sample_world 0x1 0))
   \<and> IsStateSet (thread (sample_world 0x1 0)) (TSF_Attached (sample_externals True))
   \<and> map_sum id fst (InlineTryFastReversePInvoke (sample_externals True) False 0x6000
        (sample_world 0x1 0)) = Inr False
   \<and> IsGCSpecial (sample_externals True) (thread (sample_world 0x21 0x5000))
   \<and> InlineTryFastReversePInvoke (sample_externals True) False 0x6000
        (sample_world 0x21 0x5000) = Inl AssertionFailed
   \<and> map_sum id fst (InlineTryFastReversePInvoke (sample_externals False) False 0x6000
        (sample_world 0x21 0x5000)) = Inr True"
proof -
  let ?dbg = "sample_externals True" and ?rel = "sample_externals False"
  let ?u = "sample_world 0x0 0x5000" and ?c = "sample_world 0x1 0" and ?g = "sample_world 0x21 0x5000"
  have nd: "\<not> IsDoNotTriggerGcSet ?dbg (thread ?u)" "\<not> IsDoNotTriggerGcSet ?dbg (thread ?c)"
      "\<not> IsDoNotTriggerGcSet ?dbg (thread ?g)" "\<not> IsDoNotTriggerGcSet ?rel (thread ?g)"
    and at: "\<not> IsStateSet (thread ?u) (TSF_Attached ?dbg)" "IsStateSet (thread ?c) (TSF_Attached ?dbg)"
      "IsStateSet (thread ?g) (TSF_Attached ?dbg)" "IsStateSet (thread ?g) (TSF_Attached ?rel)"
    and tf: "m_pTransitionFrame (thread ?c) = 0" "m_pTransitionFrame (thread ?g) \<noteq> 0"
    and cur: "GetCurrentThread ?dbg = this ?c" "GetCurrentThread ?dbg = this ?g"
    and gs: "IsGCSpecial ?dbg (thread ?g)"
    and bld: "asserts_enabled ?dbg" "\<not> asserts_enabled ?rel"
    by (simp_all add: sample_defs)
  have "InlineTryFastReversePInvoke ?dbg False 0x6000 ?u
      = Inr (False, set_m_savedPInvokeTransitionFrame 0x6000 (m_pTransitionFrame (thread ?u)) ?u)"
    using InlineTryFastReversePInvoke_declines [OF nd(1), of False "0x6000"] at(1) by blast
  then have r1: "map_sum id fst (InlineTryFastReversePInvoke ?dbg False 0x6000 ?u) = Inr False"
    by simp
  have "InlineTryFastReversePInvoke ?dbg False 0x6000 ?c
      = Inr (False, set_m_savedPInvokeTransitionFrame 0x6000 (m_pTransitionFrame (thread ?c)) ?c)"
    using InlineTryFastReversePInvoke_declines [OF nd(2), of False "0x6000"] at(2) tf(1) cur(1)
    by blast
  then have r2: "map_sum id fst (InlineTryFastReversePInvoke ?dbg False 0x6000 ?c) = Inr False"
    by simp
  have r3: "InlineTryFastReversePInvoke ?dbg False 0x6000 ?g = Inl AssertionFailed"
    using InlineTryFastReversePInvoke_declines [OF nd(3), of False "0x6000"] at(3) tf(2) cur(2) gs bld(1)
    by blast
  have "map_sum id fst (InlineTryFastReversePInvoke ?rel False 0x6000 ?g) = Inr (\<not> False)"
    using InlineTryFastReversePInvoke_declines [OF nd(4), of False "0x6000"] at(4) tf(2) bld(2)
    by blast
  then have r4: "map_sum id fst (InlineTryFastReversePInvoke ?rel False 0x6000 ?g) = Inr True"
    by simp
  show ?thesis using nd(1,2) at(1,2) gs r1 r2 r3 r4 by (simp only: simp_thms)
qed

section \<open>Stack bounds\<close>

text \<open>
  Claim C10. \<open>IsWithinStackBounds\<close> takes the stack as the half-open interval from
  \<^verbatim>\<open>m_pStackLow\<close> to \<^verbatim>\<open>m_pStackHigh\<close>: with both bounds non-zero it returns true exactly
  for the pointers \<open>p\<close> with \<open>low \<le> p < high\<close>; the upper bound itself is outside, and
  the lower bound is inside whenever the interval is not empty. The precondition is
  that both bounds are non-zero: otherwise the call ends in the failed assertion where
  assertions are compiled in, and compares as before where they are not.
\<close>

theorem IsWithinStackBounds_half_open:
  "(m_pStackLow t \<noteq> 0 \<and> m_pStackHigh t \<noteq> 0 \<longrightarrow>
      IsWithinStackBounds ext t p = Inr (m_pStackLow t \<le> p \<and> p < m_pStackHigh t)
      \<and> IsWithinStackBounds ext t (m_pStackHigh t) = Inr False
      \<and> IsWithinStackBounds ext t (m_pStackLow t) = Inr (m_pStackLow t < m_pStackHigh t))
   \<and> (m_pStackLow t = 0 \<or> m_pStackHigh t = 0 \<longrightarrow>
      IsWithinStackBounds ext t p
        = (if asserts_enabled ext then Inl AssertionFailed
           else Inr (m_pStackLow t \<le> p \<and> p < m_pStackHigh t)))"
  by (auto simp add: IsWithinStackBounds_def ASSERT_def)

text \<open>
  C10 on the sample thread, whose stack is from \<open>0x10000\<close> to \<open>0x20000\<close>.
\<close>

theorem IsWithinStackBounds_half_open_witness:
  "m_pStackLow (sample_thread 0x1 0) = 0x10000 \<and> m_pStackHigh (sample_thread 0x1 0) = 0x20000
   \<and> IsWithinStackBounds (sample_externals True) (sample_thread 0x1 0) 0x10000 = Inr True
   \<and> IsWithinStackBounds (sample_externals True) (sample_thread 0x1 0) 0x1FFFF = Inr True
   \<and> IsWithinStackBounds (sample_externals True) (sample_thread 0x1 0) 0x20000 = Inr False
   \<and> IsWithinStackBounds (sample_externals True) (sample_thread 0x1 0) 0xFFFF = Inr False
   \<and> IsWithinStackBounds (sample_externals True) ((sample_thread 0x1 0)\<lparr>m_pStackLow := 0\<rparr>) 0x10000
       = Inl AssertionFailed"
proof -
  let ?ext = "sample_externals True" and ?t = "sample_thread 0x1 0"
  have lo: "m_pStackLow ?t = 0x10000" and hi: "m_pStackHigh ?t = 0x20000"
    and z: "m_pStackLow (?t\<lparr>m_pStackLow := 0\<rparr>) = 0"
    and dbg: "asserts_enabled ?ext"
    by (simp_all add: sample_defs)
  have nz: "m_pStackLow ?t \<noteq> 0 \<and> m_pStackHigh ?t \<noteq> 0" by (simp add: lo hi)
  have a: "IsWithinStackBounds ?ext ?t p = Inr (0x10000 \<le> p \<and> p < 0x20000)" for p
    using IsWithinStackBounds_half_open [of ?t ?ext p] nz unfolding lo hi by blast
  have "IsWithinStackBounds ?ext (?t\<lparr>m_pStackLow := 0\<rparr>) 0x10000
      = (if asserts_enabled ?ext then Inl AssertionFailed
         else Inr (m_pStackLow (?t\<lparr>m_pStackLow := 0\<rparr>) \<le> 0x10000
                   \<and> 0x10000 < m_pStackHigh (?t\<lparr>m_pStackLow := 0\<rparr>)))"
    using IsWithinStackBounds_half_open [of "?t\<lparr>m_pStackLow := 0\<rparr>" ?ext "0x10000"] z by blast
  then have b: "IsWithinStackBounds ?ext (?t\<lparr>m_pStackLow := 0\<rparr>) 0x10000 = Inl AssertionFailed"
    using dbg by simp
  show ?thesis using lo hi b by (simp add: a)
qed

section \<open>Registrations\<close>

text \<open>
  A store that agrees with another on the nodes of a list holds the same list.
\<close>

lemma registered_store_cong:
  "(\<And>q. q \<in> set ns \<Longrightarrow> h' q = h q) \<Longrightarrow> registered h' p ns = registered h p ns"
  by (induction ns arbitrary: p) simp_all

lemma Push_fields:
  "m_pGCFrameRegistrations (thread (PushGCFrameRegistration n w)) = n"
  "m_pNext (gc_registrations (PushGCFrameRegistration n w) n) = m_pGCFrameRegistrations (thread w)"
  "q \<noteq> n \<Longrightarrow> gc_registrations (PushGCFrameRegistration n w) q = gc_registrations w q"
  by (simp_all add: PushGCFrameRegistration_def Let_def)

lemma push_all_frame:
  "q \<notin> set ms \<Longrightarrow> gc_registrations (push_all ms w) q = gc_registrations w q"
  by (induction ms arbitrary: w) (auto simp add: Push_fields)

lemma pop_all_append:
  "pop_all ext (xs @ ys) w =
     (case pop_all ext xs w of Inl e \<Rightarrow> Inl e | Inr w' \<Rightarrow> pop_all ext ys w')"
  by (induction xs arbitrary: w) (simp_all split: sum.splits)

lemma Pop_after_Push:
  "PopGCFrameRegistration ext n ((PushGCFrameRegistration n w)\<lparr>gc_registrations := g\<rparr>)
     = Inr (w\<lparr>gc_registrations := g,
              thread := (thread w)\<lparr>m_pGCFrameRegistrations := m_pNext (g n)\<rparr>\<rparr>)"
  by (simp add: PopGCFrameRegistration_def PushGCFrameRegistration_def ASSERT_def Let_def)

lemma push_all_pop_all:
  "distinct ms \<Longrightarrow>
   pop_all ext (rev ms) (push_all ms w)
     = Inr (w\<lparr>gc_registrations := gc_registrations (push_all ms w)\<rparr>)"
proof (induction ms arbitrary: w)
  case Nil
  show ?case by simp
next
  case (Cons m ms)
  let ?w1 = "PushGCFrameRegistration m w"
  let ?g = "gc_registrations (push_all ms ?w1)"
  have "m \<notin> set ms" and "distinct ms" using Cons.prems by simp_all
  then have inner: "pop_all ext (rev ms) (push_all ms ?w1) = Inr (?w1\<lparr>gc_registrations := ?g\<rparr>)"
    using Cons.IH by blast
  have "?g m = gc_registrations ?w1 m" using \<open>m \<notin> set ms\<close> by (rule push_all_frame)
  then have nxt: "m_pNext (?g m) = m_pGCFrameRegistrations (thread w)"
    by (simp add: Push_fields)
  show ?case
    by (simp add: pop_all_append inner Pop_after_Push nxt)
qed


lemma Pop_head:
  "m_pGCFrameRegistrations (thread w) = n \<Longrightarrow>
   PopGCFrameRegistration ext n w
     = Inr (w\<lparr>thread := (thread w)\<lparr>m_pGCFrameRegistrations := m_pNext (gc_registrations w n)\<rparr>\<rparr>)"
  by (simp add: PopGCFrameRegistration_def ASSERT_def)

lemma Pop_not_head:
  "m_pGCFrameRegistrations (thread w) \<noteq> n \<Longrightarrow> asserts_enabled ext \<Longrightarrow>
   PopGCFrameRegistration ext n w = Inl AssertionFailed"
  by (simp add: PopGCFrameRegistration_def ASSERT_def)

lemma Push_registered:
  assumes "registered (gc_registrations w) (m_pGCFrameRegistrations (thread w)) ns"
    and "n \<noteq> 0" and "n \<notin> set ns"
  shows "registered (gc_registrations (PushGCFrameRegistration n w))
           (m_pGCFrameRegistrations (thread (PushGCFrameRegistration n w))) (n # ns)"
proof -
  have "registered (gc_registrations (PushGCFrameRegistration n w))
          (m_pGCFrameRegistrations (thread w)) ns
        = registered (gc_registrations w) (m_pGCFrameRegistrations (thread w)) ns"
    using assms(3) by (intro registered_store_cong Push_fields(3)) auto
  then show ?thesis using assms by (simp add: Push_fields)
qed

lemma push_all_registered:
  assumes "registered (gc_registrations w) p ns" and "set ms \<inter> set ns = {}"
  shows "registered (gc_registrations (push_all ms w)) p ns"
proof -
  have "registered (gc_registrations (push_all ms w)) p ns = registered (gc_registrations w) p ns"
    using assms(2) by (intro registered_store_cong push_all_frame) auto
  then show ?thesis using assms(1) by simp
qed

text \<open>
  Claim C9. When the node passed is the head of the registration list,
  \<open>PopGCFrameRegistration\<close> removes it: the head becomes the node's successor and the
  rest of the list is registered. When the node is not the head and assertions are
  compiled in, the call ends in the failed assertion. \<open>PushGCFrameRegistration\<close> makes a
  node that is not null and not yet registered the new head, in front of the old list.
  Pushing distinct nodes that are not in the list and popping them in the reverse order
  never fails, and gives back the thread object, with the head it had, and the list
  that was registered before; this holds for every depth.
\<close>

theorem GCFrameRegistration_LIFO:
  "(registered (gc_registrations w) (m_pGCFrameRegistrations (thread w)) (n # ns) \<longrightarrow>
      PopGCFrameRegistration ext n w
        = Inr (w\<lparr>thread := (thread w)\<lparr>m_pGCFrameRegistrations := m_pNext (gc_registrations w n)\<rparr>\<rparr>)
      \<and> registered (gc_registrations w) (m_pNext (gc_registrations w n)) ns)
   \<and> (m_pGCFrameRegistrations (thread w) \<noteq> n \<and> asserts_enabled ext \<longrightarrow>
      PopGCFrameRegistration ext n w = Inl AssertionFailed)
   \<and> (registered (gc_registrations w) (m_pGCFrameRegistrations (thread w)) ns
        \<and> n \<noteq> 0 \<and> n \<notin> set ns \<longrightarrow>
      registered (gc_registrations (PushGCFrameRegistration n w))
        (m_pGCFrameRegistrations (thread (PushGCFrameRegistration n w))) (n # ns))
   \<and> (registered (gc_registrations w) (m_pGCFrameRegistrations (thread w)) ns
        \<and> distinct ms \<and> set ms \<inter> set ns = {} \<longrightarrow>
      (\<exists>w'. pop_all ext (rev ms) (push_all ms w) = Inr w'
         \<and> thread w' = thread w
         \<and> registered (gc_registrations w') (m_pGCFrameRegistrations (thread w')) ns))"
proof (intro conjI impI)
  assume r: "registered (gc_registrations w) (m_pGCFrameRegistrations (thread w)) (n # ns)"
  then have "m_pGCFrameRegistrations (thread w) = n" by simp
  then show "PopGCFrameRegistration ext n w
        = Inr (w\<lparr>thread := (thread w)\<lparr>m_pGCFrameRegistrations := m_pNext (gc_registrations w n)\<rparr>\<rparr>)"
    by (rule Pop_head)
  show "registered (gc_registrations w) (m_pNext (gc_registrations w n)) ns"
    using r by simp
next
  assume "m_pGCFrameRegistrations (thread w) \<noteq> n \<and> asserts_enabled ext"
  then show "PopGCFrameRegistration ext n w = Inl AssertionFailed"
    by (simp add: Pop_not_head)
next
  assume "registered (gc_registrations w) (m_pGCFrameRegistrations (thread w)) ns
        \<and> n \<noteq> 0 \<and> n \<notin> set ns"
  then show "registered (gc_registrations (PushGCFrameRegistration n w))
        (m_pGCFrameRegistrations (thread (PushGCFrameRegistration n w))) (n # ns)"
    by (blast intro: Push_registered)
next
  assume a: "registered (gc_registrations w) (m_pGCFrameRegistrations (thread w)) ns
        \<and> distinct ms \<and> set ms \<inter> set ns = {}"
  let ?w' = "w\<lparr>gc_registrations := gc_registrations (push_all ms w)\<rparr>"
  have "pop_all ext (rev ms) (push_all ms w) = Inr ?w'"
    using a by (simp add: push_all_pop_all)
  moreover have "thread ?w' = thread w" by simp
  moreover have "registered (gc_registrations ?w') (m_pGCFrameRegistrations (thread ?w')) ns"
    using a by (simp add: push_all_registered)
  ultimately show "\<exists>w'. pop_all ext (rev ms) (push_all ms w) = Inr w'
         \<and> thread w' = thread w
         \<and> registered (gc_registrations w') (m_pGCFrameRegistrations (thread w')) ns"
    by blast
qed

text \<open>
  C9 on the sample thread, whose list is empty: three nodes pushed and popped in reverse
  order leave the head null; after two pushes the list is the second node and then the
  first, popping the first is fatal with assertions, popping the second succeeds.
\<close>

theorem GCFrameRegistration_LIFO_witness:
  "registered (gc_registrations (sample_world 0x1 0))
      (m_pGCFrameRegistrations (thread (sample_world 0x1 0))) []
   \<and> (\<exists>w'. pop_all (sample_externals True) [0x300, 0x200, 0x100]
               (push_all [0x100, 0x200, 0x300] (sample_world 0x1 0)) = Inr w'
          \<and> m_pGCFrameRegistrations (thread w') = 0)
   \<and> registered (gc_registrations (push_all [0x100, 0x200] (sample_world 0x1 0)))
        (m_pGCFrameRegistrations (thread (push_all [0x100, 0x200] (sample_world 0x1 0))))
        [0x200, 0x100]
   \<and> PopGCFrameRegistration (sample_externals True) 0x100
        (push_all [0x100, 0x200] (sample_world 0x1 0)) = Inl AssertionFailed
   \<and> (\<exists>w'. PopGCFrameRegistration (sample_externals True) 0x200
               (push_all [0x100, 0x200] (sample_world 0x1 0)) = Inr w'
          \<and> m_pGCFrameRegistrations (thread w') = 0x100)"
proof -
  let ?ext = "sample_externals True"
  let ?w = "sample_world 0x1 0"
  let ?w2 = "push_all [0x100, 0x200] ?w"
  have e: "registered (gc_registrations ?w) (m_pGCFrameRegistrations (thread ?w)) []"
    and hd0: "m_pGCFrameRegistrations (thread ?w) = 0"
    and dbg: "asserts_enabled ?ext"
    by (simp_all add: sample_defs)
  have r2: "registered (gc_registrations ?w2) (m_pGCFrameRegistrations (thread ?w2)) [0x200, 0x100]"
    and nh: "m_pGCFrameRegistrations (thread ?w2) \<noteq> 0x100"
    and nx: "m_pNext (gc_registrations ?w2 0x200) = 0x100"
    by (simp_all add: sample_defs registry_defs Let_def)
  have "\<exists>w'. pop_all ?ext (rev [0x100, 0x200, 0x300]) (push_all [0x100, 0x200, 0x300] ?w) = Inr w'
          \<and> thread w' = thread ?w
          \<and> registered (gc_registrations w') (m_pGCFrameRegistrations (thread w')) []"
    using GCFrameRegistration_LIFO [of ?w n "[]" ?ext "[0x100, 0x200, 0x300]" for n] e
    by simp
  then have rt: "\<exists>w'. pop_all ?ext [0x300, 0x200, 0x100] (push_all [0x100, 0x200, 0x300] ?w) = Inr w'
          \<and> m_pGCFrameRegistrations (thread w') = 0"
    using hd0 by auto
  have fatal: "PopGCFrameRegistration ?ext 0x100 ?w2 = Inl AssertionFailed"
    using GCFrameRegistration_LIFO [of ?w2 "0x100" "[]" ?ext "[]"] nh dbg by blast
  have "PopGCFrameRegistration ?ext 0x200 ?w2
        = Inr (?w2\<lparr>thread := (thread ?w2)\<lparr>m_pGCFrameRegistrations := m_pNext (gc_registrations ?w2 0x200)\<rparr>\<rparr>)"
    using GCFrameRegistration_LIFO [of ?w2 "0x200" "[0x100]" ?ext "[]"] r2 by blast
  then have pop: "\<exists>w'. PopGCFrameRegistration ?ext 0x200 ?w2 = Inr w'
          \<and> m_pGCFrameRegistrations (thread w') = 0x100"
    by (simp add: nx del: push_all.simps)
  show ?thesis using e rt r2 fatal pop by (simp only: simp_thms)
qed

end
